theory Spec2Isabelle
  imports Main
begin

section \<open>Python values\<close>

text \<open>
  A Python \<open>str\<close> is a sequence of Unicode code points, so it is modelled as a list of
  natural numbers (the code points), not as a list of bytes: \<open>str.strip\<close> and
  \<open>html.escape\<close> work on code points. ASCII literals of the source are written with
  \<open>asc\<close>; literals with Cyrillic letters are written out as code points.
\<close>

type_synonym pystr = "nat list"

definition asc :: "string \<Rightarrow> pystr" where
  "asc s = map of_char s"

text \<open>A Python \<open>float\<close> is carried around and never computed with.\<close>

typedecl py_float

text \<open>
  What \<open>json.loads\<close> returns: \<open>None\<close>, a \<open>bool\<close>, an \<open>int\<close>, a \<open>float\<close>, a \<open>str\<close>,
  a \<open>list\<close> or a \<open>dict\<close> with \<open>str\<close> keys. A \<open>dict\<close> is an association list in insertion
  order; \<open>json.loads\<close> leaves no key twice.
\<close>

datatype json =
    JNull
  | JBool bool
  | JInt int
  | JFloat py_float
  | JStr pystr
  | JArr "json list"
  | JObj "(pystr \<times> json) list"

datatype exn =
    AttributeError | TypeError | KeyError | ValueError | RecursionError | OSError
  | JSONDecodeError | UnicodeDecodeError | UnicodeEncodeError | IllegalCharacterError

text \<open>\<open>d.get(key, default)\<close> and \<open>d[key]\<close> on a \<open>dict\<close>.\<close>

definition dict_get :: "(pystr \<times> json) list \<Rightarrow> pystr \<Rightarrow> json \<Rightarrow> json" where
  "dict_get d key dflt = (case map_of d key of None \<Rightarrow> dflt | Some v \<Rightarrow> v)"

definition subscript :: "(pystr \<times> json) list \<Rightarrow> pystr \<Rightarrow> exn + json" where
  "subscript d key = (case map_of d key of None \<Rightarrow> Inl KeyError | Some v \<Rightarrow> Inr v)"

text \<open>
  \<open>v in S\<close> for a set \<open>S\<close> of strings: the value is hashed first, so a \<open>list\<close> or a
  \<open>dict\<close> raises \<open>TypeError\<close>; a value that is not a \<open>str\<close> equals no string.
\<close>

fun in_str_set :: "json \<Rightarrow> pystr set \<Rightarrow> exn + bool" where
  "in_str_set (JStr s) S = Inr (s \<in> S)"
| "in_str_set (JArr xs) S = Inl TypeError"
| "in_str_set (JObj kvs) S = Inl TypeError"
| "in_str_set v S = Inr False"

subsection \<open>\<open>str.strip\<close>, \<open>html.escape\<close>, \<open>str.join\<close>\<close>

text \<open>The code points for which \<open>str.isspace\<close> holds; \<open>strip()\<close> removes exactly these.\<close>

definition isspace :: "nat \<Rightarrow> bool" where
  "isspace c =
     (c \<in> {9, 10, 11, 12, 13, 28, 29, 30, 31, 32, 133, 160, 5760,
            8192, 8193, 8194, 8195, 8196, 8197, 8198, 8199, 8200, 8201, 8202,
            8232, 8233, 8239, 8287, 12288})"

definition strip :: "pystr \<Rightarrow> pystr" where
  "strip s = rev (dropWhile isspace (rev (dropWhile isspace s)))"

text \<open>\<open>s.replace(c, r)\<close> for a one-character \<open>c\<close>.\<close>

definition replace :: "nat \<Rightarrow> pystr \<Rightarrow> pystr \<Rightarrow> pystr" where
  "replace c r s = concat (map (\<lambda>x. if x = c then r else [x]) s)"

text \<open>
  \<open>html.escape(s)\<close> with its default \<open>quote=True\<close>: five replacements, the ampersand
  first.
\<close>

definition escape :: "pystr \<Rightarrow> pystr" where
  "escape s =
     replace 39 (asc ''&#x27;'')
       (replace 34 (asc ''&quot;'')
         (replace 62 (asc ''&gt;'')
           (replace 60 (asc ''&lt;'')
             (replace 38 (asc ''&amp;'') s))))"

text \<open>
  \<open>str(value)\<close>: a \<open>str\<close> is returned as it is. For any other value the text is what
  Python's builtin makes of it, taken as the parameter \<open>repr\<close>.
\<close>

definition str :: "(json \<Rightarrow> pystr) \<Rightarrow> json \<Rightarrow> pystr" where
  "str repr value = (case value of JStr s \<Rightarrow> s | _ \<Rightarrow> repr value)"

definition sanitize :: "(json \<Rightarrow> pystr) \<Rightarrow> json \<Rightarrow> pystr" where
  "sanitize repr value = escape (strip (str repr value))"

section \<open>Constants of the server\<close>

definition VALID_GENDERS :: "pystr set" where
  "VALID_GENDERS = {[1052], [1046]}"

definition VALID_BOATS :: "pystr set" where
  "VALID_BOATS =
     {[1050, 45, 49], [1050, 45, 50], [1050, 45, 52],
      [1057, 45, 49], [1057, 45, 50], [1057, 45, 52]}"

definition VALID_DISTANCES :: "pystr set" where
  "VALID_DISTANCES =
     {[50, 48, 48, 32, 1084], [53, 48, 48, 32, 1084],
      [49, 48, 48, 48, 32, 1084], [53, 48, 48, 48, 32, 1084],
      [1069, 1089, 1090, 1072, 1092, 1077, 1090, 1072, 32, 52, 215, 50, 48, 48]}"

definition required :: "pystr list" where
  "required =
     [asc ''surname'', asc ''firstname'', asc ''birthdate'', asc ''gender'',
      asc ''country'', asc ''city'', asc ''team'', asc ''boat_class'', asc ''phone'']"

section \<open>The registration store\<close>

text \<open>
  The bytes of a file are represented by what the reader makes of them: \<open>Unreadable e\<close>
  when \<open>open\<close>, \<open>f.read()\<close> or \<open>json.loads(content)\<close> raises \<open>e\<close> (\<open>UnicodeDecodeError\<close> for bytes
  that are not UTF-8, \<open>JSONDecodeError\<close> for text that is not JSON, \<open>RecursionError\<close> for
  text nested deeper than the interpreter goes), \<open>Blank\<close> when \<open>content.strip()\<close> is empty,
  and \<open>Document v\<close> when \<open>json.loads(content)\<close> returns \<open>v\<close>. Every file is of exactly one of
  these kinds. A file system maps a path to the content of the file there, \<open>None\<close> where
  \<open>os.path.exists\<close> is false.
\<close>

datatype content = Blank | Document json | Unreadable exn

type_synonym filesystem = "pystr \<Rightarrow> content option"

definition DATA_FILE :: pystr where
  "DATA_FILE = asc ''data/registrations.json''"

definition read_registrations :: "filesystem \<Rightarrow> exn + json list" where
  "read_registrations fs =
     (case fs DATA_FILE of
        None \<Rightarrow> Inr []
      | Some Blank \<Rightarrow> Inr []
      | Some (Unreadable e) \<Rightarrow> Inl e
      | Some (Document data) \<Rightarrow> Inr (case data of JArr xs \<Rightarrow> xs | _ \<Rightarrow> []))"

text \<open>
  \<open>json.dump(data, f, ensure_ascii=False, indent=2)\<close> writes the characters of every
  string and key as they are, and the file encodes them as UTF-8. A surrogate code point
  (U+D800 to U+DFFF) has no UTF-8 encoding: the piece of text that holds one is refused
  with \<open>UnicodeEncodeError\<close>, after the pieces before it have been written.
\<close>

definition is_surrogate :: "nat \<Rightarrow> bool" where
  "is_surrogate c = (55296 \<le> c \<and> c \<le> 57343)"

fun surrogates :: "json \<Rightarrow> bool" where
  "surrogates (JStr s) = list_ex is_surrogate s"
| "surrogates (JArr xs) = list_ex surrogates xs"
| "surrogates (JObj kvs) =
     list_ex (\<lambda>kv. list_ex is_surrogate (fst kv) \<or> surrogates (snd kv)) kvs"
| "surrogates v = False"

text \<open>
  The encoder hands the text over in pieces. The first piece of a list is the opening
  bracket alone when the first item is a list or a dict, and the bracket together with
  the first item otherwise; so nothing at all has been written only when the first item
  is itself a string that holds a surrogate.
\<close>

definition first_piece_refused :: "json list \<Rightarrow> bool" where
  "first_piece_refused data =
     (case data of JStr s # rest \<Rightarrow> list_ex is_surrogate s | _ \<Rightarrow> False)"

text \<open>
  \<open>save_registrations\<close> runs \<open>os.makedirs\<close>, \<open>open(DATA_FILE, "w")\<close> and \<open>json.dump\<close>. Each
  of them can fail outside the program (a full disk, a missing permission, an exhausted
  stack); which one does, if any, is the parameter \<open>fault\<close>, and a failing write says what
  it raises and how much text had reached the file: nothing, a prefix that ends between
  two characters, or a prefix that ends inside the bytes of one character.
  \<open>open(..., "w")\<close> truncates the file at \<open>DATA_FILE\<close> itself, so from there on the file is
  empty until text reaches it, and a proper prefix of the new document is not JSON. When
  nothing fails outside, the write fails exactly on a surrogate in the data. A completed
  write leaves the text of \<open>data\<close>, which \<open>json.loads\<close> reads back as \<open>data\<close>.
\<close>

datatype partial = NothingWritten | CutBetweenCharacters | CutInsideCharacter

datatype io_fault = NoFault | MakedirsFails | OpenFails | WriteFails exn partial

definition left_by :: "partial \<Rightarrow> content" where
  "left_by p =
     (case p of
        NothingWritten \<Rightarrow> Blank
      | CutBetweenCharacters \<Rightarrow> Unreadable JSONDecodeError
      | CutInsideCharacter \<Rightarrow> Unreadable UnicodeDecodeError)"

fun save_registrations ::
  "io_fault \<Rightarrow> json list \<Rightarrow> filesystem \<Rightarrow> (exn + unit) \<times> filesystem" where
  "save_registrations MakedirsFails data fs = (Inl OSError, fs)"
| "save_registrations OpenFails data fs = (Inl OSError, fs)"
| "save_registrations (WriteFails e p) data fs = (Inl e, fs(DATA_FILE \<mapsto> left_by p))"
| "save_registrations NoFault data fs =
     (if list_ex surrogates data
      then (Inl UnicodeEncodeError,
            fs(DATA_FILE \<mapsto> (if first_piece_refused data then Blank
                                  else Unreadable JSONDecodeError)))
      else (Inr (), fs(DATA_FILE \<mapsto> Document (JArr data))))"

section \<open>The report\<close>

text \<open>
  The workbook has one sheet. A sheet is the grid of cells that \<open>ws.cell(row, column,
  value)\<close> has written, each with the value the cell holds and the styles set on it, the
  column widths, the frozen pane and the range of the filter. \<open>make_xlsx\<close> returns the
  bytes that \<open>wb.save\<close> makes of this sheet; \<open>wb.save\<close> is the library's and is taken as a
  parameter.
\<close>

datatype font = HeaderFont | DataFont
datatype fill = HeaderFill | EvenFill
datatype alignment = HeaderAlign | DataAlign | CenterAlign
datatype border = ThinBorder

record cell =
  cvalue :: json
  cfont :: font
  cfill :: "fill option"
  calignment :: alignment
  cborder :: border

record worksheet =
  ws_title :: pystr
  ws_cells :: "nat \<times> nat \<Rightarrow> cell option"
  ws_width :: "nat \<Rightarrow> nat option"
  ws_freeze_panes :: "pystr option"
  ws_auto_filter :: "((nat \<times> nat) \<times> (nat \<times> nat)) option"

type_synonym bytes = "nat list"

definition headers :: "pystr list" where
  "headers =
     [[8470],
      [1044, 1072, 1090, 1072, 32, 1079, 1072, 1103, 1074, 1082, 1080],
      [1060, 1072, 1084, 1080, 1083, 1080, 1103],
      [1048, 1084, 1103],
      [1054, 1090, 1095, 1077, 1089, 1090, 1074, 1086],
      [1044, 1072, 1090, 1072, 32, 1088, 1086, 1078, 1076, 1077, 1085, 1080, 1103],
      [1055, 1086, 1083],
      [1057, 1090, 1088, 1072, 1085, 1072],
      [1043, 1086, 1088, 1086, 1076],
      [1047, 1074, 1072, 1085, 1080, 1077],
      [1050, 1086, 1084, 1072, 1085, 1076, 1072],
      [1050, 1083, 1072, 1089, 1089, 32, 1083, 1086, 1076, 1082, 1080],
      [1058, 1077, 1083, 1077, 1092, 1086, 1085],
      [1044, 1080, 1089, 1090, 1072, 1085, 1094, 1080, 1080]]"

definition col_widths :: "nat list" where
  "col_widths = [5, 14, 18, 14, 16, 14, 7, 14, 16, 12, 20, 13, 20, 30]"

definition new_sheet :: worksheet where
  "new_sheet =
     \<lparr>ws_title = [1047, 1072, 1103, 1074, 1082, 1080],
      ws_cells = (\<lambda>_. None), ws_width = (\<lambda>_. None),
      ws_freeze_panes = None, ws_auto_filter = None\<rparr>"

text \<open>
  What \<open>openpyxl\<close> does with a value given to a cell. A string is cut to its first 32767
  characters and then refused with \<open>IllegalCharacterError\<close> if one of the control
  characters U+0000 to U+0008, U+000B, U+000C, U+000E to U+001F is left in it. A number,
  a \<open>bool\<close> and \<open>None\<close> are kept as they are. A \<open>list\<close> or a \<open>dict\<close> is refused with
  \<open>ValueError\<close>. Before the value is looked at, \<open>ws.cell\<close> refuses a row beyond 1048576,
  the last row a sheet has, with \<open>ValueError\<close> as well.
\<close>

definition max_row :: nat where
  "max_row = 1048576"

definition illegal_character :: "nat \<Rightarrow> bool" where
  "illegal_character c = (c \<le> 8 \<or> c = 11 \<or> c = 12 \<or> (14 \<le> c \<and> c \<le> 31))"

definition check_string :: "pystr \<Rightarrow> exn + pystr" where
  "check_string s =
     (let v = take 32767 s
      in if list_ex illegal_character v then Inl IllegalCharacterError else Inr v)"

definition bind_value :: "json \<Rightarrow> exn + json" where
  "bind_value v =
     (case v of
        JStr s \<Rightarrow> (case check_string s of Inl e \<Rightarrow> Inl e | Inr t \<Rightarrow> Inr (JStr t))
      | JArr xs \<Rightarrow> Inl ValueError
      | JObj kvs \<Rightarrow> Inl ValueError
      | _ \<Rightarrow> Inr v)"

text \<open>A \<open>for\<close> loop whose body can raise: the first round that raises ends the loop.\<close>

fun for_each :: "('s \<Rightarrow> 'a \<Rightarrow> exn + 's) \<Rightarrow> 's \<Rightarrow> 'a list \<Rightarrow> exn + 's" where
  "for_each body s [] = Inr s"
| "for_each body s (x # xs) =
     (case body s x of Inl e \<Rightarrow> Inl e | Inr s' \<Rightarrow> for_each body s' xs)"

text \<open>One round of the loop over \<open>enumerate(zip(headers, col_widths), 1)\<close>.\<close>

definition write_header :: "worksheet \<Rightarrow> nat \<times> pystr \<times> nat \<Rightarrow> exn + worksheet" where
  "write_header ws = (\<lambda>(col_idx, title, width).
     case bind_value (JStr title) of
       Inl e \<Rightarrow> Inl e
     | Inr v \<Rightarrow>
         Inr (ws\<lparr>ws_cells := (ws_cells ws)((1, col_idx) \<mapsto>
                     \<lparr>cvalue = v, cfont = HeaderFont, cfill = Some HeaderFill,
                      calignment = HeaderAlign, cborder = ThinBorder\<rparr>),
                  ws_width := (ws_width ws)(col_idx \<mapsto> width)\<rparr>))"

text \<open>
  \<open>", ".join(x)\<close>: \<open>x\<close> is iterated (a \<open>list\<close> gives its items, a \<open>str\<close> its characters, a
  \<open>dict\<close> its keys; anything else JSON has is not iterable) and every item must be a
  \<open>str\<close>.
\<close>

fun join :: "pystr \<Rightarrow> pystr list \<Rightarrow> pystr" where
  "join sep [] = []"
| "join sep [x] = x"
| "join sep (x # y # ys) = x @ sep @ join sep (y # ys)"

definition iterate :: "json \<Rightarrow> exn + json list" where
  "iterate v =
     (case v of
        JArr xs \<Rightarrow> Inr xs
      | JStr s \<Rightarrow> Inr (map (\<lambda>c. JStr [c]) s)
      | JObj kvs \<Rightarrow> Inr (map (\<lambda>kv. JStr (fst kv)) kvs)
      | _ \<Rightarrow> Inl TypeError)"

fun strs :: "json list \<Rightarrow> exn + pystr list" where
  "strs [] = Inr []"
| "strs (JStr s # rest) = (case strs rest of Inl e \<Rightarrow> Inl e | Inr ss \<Rightarrow> Inr (s # ss))"
| "strs (v # rest) = Inl TypeError"

definition join_json :: "pystr \<Rightarrow> json \<Rightarrow> exn + pystr" where
  "join_json sep v =
     (case iterate v of
        Inl e \<Rightarrow> Inl e
      | Inr items \<Rightarrow> (case strs items of Inl e \<Rightarrow> Inl e | Inr ss \<Rightarrow> Inr (join sep ss)))"

text \<open>\<open>row_data\<close> of the loop over the registrations; \<open>reg.get\<close> needs a \<open>dict\<close>.\<close>

definition row_data :: "nat \<Rightarrow> json \<Rightarrow> exn + json list" where
  "row_data i reg =
     (case reg of
        JObj r \<Rightarrow>
          (case join_json (asc '', '') (dict_get r (asc ''distances'') (JArr [])) of
             Inl e \<Rightarrow> Inl e
           | Inr joined \<Rightarrow>
               Inr [JInt (int i),
                    dict_get r (asc ''timestamp'') (JStr []),
                    dict_get r (asc ''surname'') (JStr []),
                    dict_get r (asc ''firstname'') (JStr []),
                    dict_get r (asc ''patronymic'') (JStr []),
                    dict_get r (asc ''birthdate'') (JStr []),
                    dict_get r (asc ''gender'') (JStr []),
                    dict_get r (asc ''country'') (JStr []),
                    dict_get r (asc ''city'') (JStr []),
                    dict_get r (asc ''rank'') (JStr []),
                    dict_get r (asc ''team'') (JStr []),
                    dict_get r (asc ''boat_class'') (JStr []),
                    dict_get r (asc ''phone'') (JStr []),
                    JStr joined])
      | _ \<Rightarrow> Inl AttributeError)"

text \<open>One round of the loop over \<open>enumerate(row_data, 1)\<close>, for the registration \<open>i\<close>.\<close>

definition write_cell :: "nat \<Rightarrow> worksheet \<Rightarrow> nat \<times> json \<Rightarrow> exn + worksheet" where
  "write_cell i ws = (\<lambda>(col_idx, value).
     if max_row < i + 1 then Inl ValueError
     else case bind_value value of
       Inl e \<Rightarrow> Inl e
     | Inr v \<Rightarrow>
         Inr (ws\<lparr>ws_cells := (ws_cells ws)((i + 1, col_idx) \<mapsto>
                     \<lparr>cvalue = v, cfont = DataFont,
                      cfill = (if i mod 2 = 0 then Some EvenFill else None),
                      calignment =
                        (if col_idx = 1 \<or> col_idx = 7 then CenterAlign else DataAlign),
                      cborder = ThinBorder\<rparr>)\<rparr>))"

text \<open>One round of the loop over \<open>enumerate(registrations, 1)\<close>.\<close>

definition write_row :: "worksheet \<Rightarrow> nat \<times> json \<Rightarrow> exn + worksheet" where
  "write_row ws = (\<lambda>(i, reg).
     case row_data i reg of
       Inl e \<Rightarrow> Inl e
     | Inr row \<Rightarrow> for_each (write_cell i) ws (enumerate 1 row))"

text \<open>Lines 65 to 140 of \<open>make_xlsx\<close>: the sheet as it stands when \<open>wb.save\<close> is called.\<close>

definition make_sheet :: "json list \<Rightarrow> exn + worksheet" where
  "make_sheet registrations =
     (case for_each write_header new_sheet (enumerate 1 (zip headers col_widths)) of
        Inl e \<Rightarrow> Inl e
      | Inr ws \<Rightarrow>
          (case for_each write_row (ws\<lparr>ws_freeze_panes := Some (asc ''A2'')\<rparr>)
                  (enumerate 1 registrations) of
             Inl e \<Rightarrow> Inl e
           | Inr ws \<Rightarrow>
               Inr (ws\<lparr>ws_auto_filter :=
                         Some ((1, 1),
                               (length headers, max (length registrations + 1) 1))\<rparr>)))"

definition make_xlsx :: "(worksheet \<Rightarrow> exn + bytes) \<Rightarrow> json list \<Rightarrow> exn + bytes" where
  "make_xlsx wb_save registrations =
     (case make_sheet registrations of
        Inl e \<Rightarrow> Inl e
      | Inr ws \<Rightarrow> wb_save ws)"

section \<open>The request handler\<close>

text \<open>
  A request is what the handler reads of it: the path (\<open>urlparse(self.path).path\<close>),
  the \<open>X-Admin-Token\<close> header if there is one, and what \<open>json.loads(raw)\<close> makes of the
  body, \<open>None\<close> when it raises. Reading \<open>Content-Length\<close> bytes from the socket and
  decoding them as UTF-8 is the transport's part and comes before the model starts. The
  environment holds the configured secret, the two values the handler draws from outside
  (\<open>uuid.uuid4().hex\<close> and the formatted \<open>datetime.now()\<close>), Python's \<open>str\<close> on values that
  are not strings, \<open>openpyxl\<close>'s \<open>wb.save\<close>, and the fault of the write, if any.
\<close>

record request =
  req_path :: pystr
  req_token :: "pystr option"
  req_body :: "json option"

record environ =
  env_ADMIN_TOKEN :: pystr
  env_uuid4_hex :: pystr
  env_now :: pystr
  env_repr :: "json \<Rightarrow> pystr"
  env_wb_save :: "worksheet \<Rightarrow> exn + bytes"
  env_fault :: io_fault

text \<open>
  What a handler sends: \<open>send_json(data, status)\<close>, the spreadsheet, or a static file
  (the base class's \<open>do_GET\<close>).
\<close>

datatype response = SendJson json nat | SendXlsx bytes | StaticFile

definition failure :: "pystr \<Rightarrow> json" where
  "failure msg = JObj [(asc ''success'', JBool False), (asc ''error'', JStr msg)]"

definition check_admin_token :: "environ \<Rightarrow> request \<Rightarrow> bool" where
  "check_admin_token env req =
     ((case req_token req of None \<Rightarrow> [] | Some token \<Rightarrow> token) = env_ADMIN_TOKEN env)"

definition unauthorized :: response where
  "unauthorized =
     SendJson (failure [1053, 1077, 1074, 1077, 1088, 1085, 1099, 1081, 32,
                        1090, 1086, 1082, 1077, 1085]) 401"

definition do_GET :: "environ \<Rightarrow> request \<Rightarrow> filesystem \<Rightarrow> exn + response" where
  "do_GET env req fs =
     (if req_path req = asc ''/api'' then
        (if \<not> check_admin_token env req then Inr unauthorized
         else case read_registrations fs of
                Inl e \<Rightarrow> Inl e
              | Inr registrations \<Rightarrow>
                  Inr (SendJson (JObj [(asc ''success'', JBool True),
                                       (asc ''count'', JInt (int (length registrations))),
                                       (asc ''data'', JArr registrations)]) 200))
      else Inr StaticFile)"

subsection \<open>Validation of a submission\<close>

text \<open>
  The loop over \<open>required\<close>: \<open>body.get(field, "").strip()\<close> needs a \<open>str\<close>; the first field
  that is missing or blank is the one reported.
\<close>

fun check_required :: "(pystr \<times> json) list \<Rightarrow> pystr list \<Rightarrow> exn + pystr option" where
  "check_required body [] = Inr None"
| "check_required body (field # rest) =
     (case dict_get body field (JStr []) of
        JStr s \<Rightarrow> if strip s = [] then Inr (Some field) else check_required body rest
      | _ \<Rightarrow> Inl AttributeError)"

definition field_required :: "pystr \<Rightarrow> response" where
  "field_required field =
     SendJson (failure ([1055, 1086, 1083, 1077, 32, 39] @ field @
                        [39, 32, 1086, 1073, 1103, 1079, 1072, 1090, 1077, 1083, 1100,
                         1085, 1086])) 400"

definition bad_gender :: response where
  "bad_gender =
     SendJson (failure [1053, 1077, 1082, 1086, 1088, 1088, 1077, 1082, 1090, 1085, 1099,
                        1081, 32, 1087, 1086, 1083]) 400"

definition bad_boat :: response where
  "bad_boat =
     SendJson (failure [1053, 1077, 1082, 1086, 1088, 1088, 1077, 1082, 1090, 1085, 1099,
                        1081, 32, 1082, 1083, 1072, 1089, 1089, 32, 1083, 1086, 1076, 1082,
                        1080]) 400"

text \<open>
  Lines 220 to 233 of \<open>do_POST\<close>: \<open>Inr (Some r)\<close> is the rejection \<open>r\<close> sent, \<open>Inr None\<close> is
  a payload that passes, \<open>Inl e\<close> an exception raised. \<open>body.get\<close> needs a \<open>dict\<close>.
\<close>

definition validate :: "json \<Rightarrow> exn + response option" where
  "validate body =
     (case body of
        JObj d \<Rightarrow>
          (case check_required d required of
             Inl e \<Rightarrow> Inl e
           | Inr (Some field) \<Rightarrow> Inr (Some (field_required field))
           | Inr None \<Rightarrow>
               (case subscript d (asc ''gender'') of
                  Inl e \<Rightarrow> Inl e
                | Inr gender \<Rightarrow>
                    (case in_str_set gender VALID_GENDERS of
                       Inl e \<Rightarrow> Inl e
                     | Inr False \<Rightarrow> Inr (Some bad_gender)
                     | Inr True \<Rightarrow>
                         (case subscript d (asc ''boat_class'') of
                            Inl e \<Rightarrow> Inl e
                          | Inr boat \<Rightarrow>
                              (case in_str_set boat VALID_BOATS of
                                 Inl e \<Rightarrow> Inl e
                               | Inr False \<Rightarrow> Inr (Some bad_boat)
                               | Inr True \<Rightarrow> Inr None)))))
      | _ \<Rightarrow> Inl AttributeError)"

subsection \<open>The entry\<close>

text \<open>
  The loop over \<open>body.get("distances", [])\<close>: \<open>distances\<close> is the list built so far, each
  value of the catalogue is appended to it.
\<close>

fun keep_valid :: "json list \<Rightarrow> json list \<Rightarrow> exn + json list" where
  "keep_valid distances [] = Inr distances"
| "keep_valid distances (d # rest) =
     (case in_str_set d VALID_DISTANCES of
        Inl e \<Rightarrow> Inl e
      | Inr True \<Rightarrow> keep_valid (distances @ [d]) rest
      | Inr False \<Rightarrow> keep_valid distances rest)"

definition filter_distances :: "(pystr \<times> json) list \<Rightarrow> exn + json list" where
  "filter_distances body =
     (case iterate (dict_get body (asc ''distances'') (JArr [])) of
        Inl e \<Rightarrow> Inl e
      | Inr candidates \<Rightarrow> keep_valid [] candidates)"

text \<open>
  The items of a \<open>dict\<close> display are evaluated in order; the first that raises ends the
  display.
\<close>

fun display :: "(pystr \<times> (exn + json)) list \<Rightarrow> exn + (pystr \<times> json) list" where
  "display [] = Inr []"
| "display ((k, Inl e) # rest) = Inl e"
| "display ((k, Inr v) # rest) =
     (case display rest of Inl e \<Rightarrow> Inl e | Inr kvs \<Rightarrow> Inr ((k, v) # kvs))"

text \<open>\<open>sanitize(body[key])\<close> and \<open>sanitize(body.get(key, ""))\<close>.\<close>

definition sanitized :: "environ \<Rightarrow> (pystr \<times> json) list \<Rightarrow> pystr \<Rightarrow> exn + json" where
  "sanitized env body key =
     (case subscript body key of
        Inl e \<Rightarrow> Inl e
      | Inr v \<Rightarrow> Inr (JStr (sanitize (env_repr env) v)))"

definition sanitized_get :: "environ \<Rightarrow> (pystr \<times> json) list \<Rightarrow> pystr \<Rightarrow> exn + json" where
  "sanitized_get env body key =
     Inr (JStr (sanitize (env_repr env) (dict_get body key (JStr []))))"

definition entry_id :: "environ \<Rightarrow> pystr" where
  "entry_id env = asc ''reg_'' @ take 12 (env_uuid4_hex env)"

definition make_entry :: "environ \<Rightarrow> (pystr \<times> json) list \<Rightarrow> json list \<Rightarrow> exn + json" where
  "make_entry env body distances =
     (case display
        [(asc ''id'', Inr (JStr (entry_id env))),
         (asc ''timestamp'', Inr (JStr (env_now env))),
         (asc ''surname'', sanitized env body (asc ''surname'')),
         (asc ''firstname'', sanitized env body (asc ''firstname'')),
         (asc ''patronymic'', sanitized_get env body (asc ''patronymic'')),
         (asc ''birthdate'', sanitized env body (asc ''birthdate'')),
         (asc ''gender'', subscript body (asc ''gender'')),
         (asc ''country'', sanitized env body (asc ''country'')),
         (asc ''city'', sanitized env body (asc ''city'')),
         (asc ''rank'', sanitized_get env body (asc ''rank'')),
         (asc ''team'', sanitized env body (asc ''team'')),
         (asc ''boat_class'', subscript body (asc ''boat_class'')),
         (asc ''phone'', sanitized env body (asc ''phone'')),
         (asc ''distances'', Inr (JArr distances))]
      of Inl e \<Rightarrow> Inl e | Inr entry \<Rightarrow> Inr (JObj entry))"

subsection \<open>\<open>do_POST\<close>\<close>

text \<open>
  Lines 220 to 261: validation, the entry, then read, append, save and the answer. The
  result is what the handler sends or raises, and the file system it leaves.
\<close>

definition submit ::
  "environ \<Rightarrow> json \<Rightarrow> filesystem \<Rightarrow> (exn + response) \<times> filesystem" where
  "submit env body fs =
     (case validate body of
        Inl e \<Rightarrow> (Inl e, fs)
      | Inr (Some rejection) \<Rightarrow> (Inr rejection, fs)
      | Inr None \<Rightarrow>
          (case body of
             JObj d \<Rightarrow>
               (case filter_distances d of
                  Inl e \<Rightarrow> (Inl e, fs)
                | Inr distances \<Rightarrow>
                    (case make_entry env d distances of
                       Inl e \<Rightarrow> (Inl e, fs)
                     | Inr entry \<Rightarrow>
                         (case read_registrations fs of
                            Inl e \<Rightarrow> (Inl e, fs)
                          | Inr registrations \<Rightarrow>
                              (case save_registrations (env_fault env)
                                      (registrations @ [entry]) fs of
                                 (Inl e, fs') \<Rightarrow> (Inl e, fs')
                               | (Inr u, fs') \<Rightarrow>
                                   (Inr (SendJson (JObj [(asc ''success'', JBool True),
                                                         (asc ''id'', JStr (entry_id env))])
                                           200), fs')))))
           | _ \<Rightarrow> (Inl AttributeError, fs)))"

definition do_POST ::
  "environ \<Rightarrow> request \<Rightarrow> filesystem \<Rightarrow> (exn + response) \<times> filesystem" where
  "do_POST env req fs =
     (if req_path req = asc ''/api/export'' then
        (if \<not> check_admin_token env req then (Inr unauthorized, fs)
         else case read_registrations fs of
                Inl e \<Rightarrow> (Inl e, fs)
              | Inr registrations \<Rightarrow>
                  (case make_xlsx (env_wb_save env) registrations of
                     Inl e \<Rightarrow> (Inl e, fs)
                   | Inr xlsx_data \<Rightarrow> (Inr (SendXlsx xlsx_data), fs)))
      else if req_path req \<noteq> asc ''/api'' then
        (Inr (SendJson (failure (asc ''Not found'')) 404), fs)
      else case req_body req of
             None \<Rightarrow>
               (Inr (SendJson (failure [1053, 1077, 1082, 1086, 1088, 1088, 1077, 1082,
                                        1090, 1085, 1099, 1077, 32, 1076, 1072, 1085, 1085,
                                        1099, 1077]) 400), fs)
           | Some body \<Rightarrow> submit env body fs)"

section \<open>Properties of the submission path\<close>

lemma asc_eq_iff: "asc s = asc t \<longleftrightarrow> s = t"
  by (simp add: asc_def inj_map_eq_map [OF inj_of_char])

lemma strip_Nil: "strip [] = []"
  by (simp add: strip_def)

lemma check_required_None:
  "check_required d fs = Inr None \<Longrightarrow> f \<in> set fs \<Longrightarrow>
     \<exists>s. map_of d f = Some (JStr s) \<and> strip s \<noteq> []"
  by (induction fs) (auto simp: dict_get_def strip_Nil split: json.splits option.splits if_splits)

lemma validate_None_required:
  assumes "validate (JObj d) = Inr None" and "f \<in> set required"
  shows "\<exists>s. map_of d f = Some (JStr s) \<and> strip s \<noteq> []"
proof -
  from assms(1) have "check_required d required = Inr None"
    by (auto simp: validate_def split: sum.splits option.splits bool.splits)
  from this assms(2) show ?thesis by (rule check_required_None)
qed

lemma validate_None_body: "validate body = Inr None \<Longrightarrow> \<exists>d. body = JObj d"
  by (cases body) (simp_all add: validate_def)

lemma subscript_required:
  assumes "validate (JObj d) = Inr None" and "f \<in> set required"
  shows "subscript d f = Inr (dict_get d f (JStr []))"
  using validate_None_required [OF assms] by (auto simp: subscript_def dict_get_def)

lemma sanitized_required:
  assumes "validate (JObj d) = Inr None" and "f \<in> set required"
  shows "sanitized env d f = Inr (JStr (sanitize (env_repr env) (dict_get d f (JStr []))))"
  by (simp add: sanitized_def subscript_required [OF assms])

lemma make_entry_explicit:
  assumes ok: "validate (JObj d) = Inr None"
  shows "make_entry env d ds = Inr (JObj
     [(asc ''id'', JStr (entry_id env)),
      (asc ''timestamp'', JStr (env_now env)),
      (asc ''surname'', JStr (sanitize (env_repr env) (dict_get d (asc ''surname'') (JStr [])))),
      (asc ''firstname'', JStr (sanitize (env_repr env) (dict_get d (asc ''firstname'') (JStr [])))),
      (asc ''patronymic'', JStr (sanitize (env_repr env) (dict_get d (asc ''patronymic'') (JStr [])))),
      (asc ''birthdate'', JStr (sanitize (env_repr env) (dict_get d (asc ''birthdate'') (JStr [])))),
      (asc ''gender'', dict_get d (asc ''gender'') (JStr [])),
      (asc ''country'', JStr (sanitize (env_repr env) (dict_get d (asc ''country'') (JStr [])))),
      (asc ''city'', JStr (sanitize (env_repr env) (dict_get d (asc ''city'') (JStr [])))),
      (asc ''rank'', JStr (sanitize (env_repr env) (dict_get d (asc ''rank'') (JStr [])))),
      (asc ''team'', JStr (sanitize (env_repr env) (dict_get d (asc ''team'') (JStr [])))),
      (asc ''boat_class'', dict_get d (asc ''boat_class'') (JStr [])),
      (asc ''phone'', JStr (sanitize (env_repr env) (dict_get d (asc ''phone'') (JStr [])))),
      (asc ''distances'', JArr ds)])"
proof -
  have r: "\<And>f. f \<in> set required \<Longrightarrow>
      sanitized env d f = Inr (JStr (sanitize (env_repr env) (dict_get d f (JStr []))))"
    by (rule sanitized_required [OF ok])
  have s: "\<And>f. f \<in> set required \<Longrightarrow> subscript d f = Inr (dict_get d f (JStr []))"
    by (rule subscript_required [OF ok])
  show ?thesis
    unfolding make_entry_def
    by (simp add: r s required_def sanitized_get_def)
qed

lemma status_400:
  "field_required f \<noteq> SendJson a 200" "bad_gender \<noteq> SendJson a 200" "bad_boat \<noteq> SendJson a 200"
  by (simp_all add: field_required_def bad_gender_def bad_boat_def)

lemma validate_rejection_400: "validate body = Inr (Some r) \<Longrightarrow> r \<noteq> SendJson a 200"
  by (cases body)
     (auto simp: validate_def status_400 split: sum.splits option.splits bool.splits)

lemma save_Inr: "save_registrations fault data fs = (Inr u, fs') \<Longrightarrow>
   fault = NoFault \<and> fs' = fs(DATA_FILE \<mapsto> Document (JArr data))"
  by (cases "(fault, data, fs)" rule: save_registrations.cases) (auto split: if_splits)

lemma submit_success:
  assumes "submit env body fs = (Inr (SendJson a 200), fs')"
  shows "\<exists>d ds entry prior. body = JObj d \<and> validate (JObj d) = Inr None \<and>
      filter_distances d = Inr ds \<and> make_entry env d ds = Inr entry \<and>
      read_registrations fs = Inr prior \<and> env_fault env = NoFault \<and>
      fs' = fs(DATA_FILE \<mapsto> Document (JArr (prior @ [entry])))"
proof (cases "validate body")
  case (Inl e)
  with assms show ?thesis by (simp add: submit_def)
next
  case (Inr r)
  show ?thesis
  proof (cases r)
    case (Some rej)
    with Inr assms validate_rejection_400 [of body rej a] show ?thesis
      by (simp add: submit_def)
  next
    case None
    with Inr obtain d where d: "body = JObj d" using validate_None_body by blast
    from assms Inr None d show ?thesis
      by (auto simp: submit_def split: sum.splits prod.splits dest: save_Inr)
  qed
qed

lemma submit_answer:
  assumes "submit env body fs = (Inr (SendJson a 200), fs')"
  shows "a = JObj [(asc ''success'', JBool True), (asc ''id'', JStr (entry_id env))]"
proof (cases "validate body")
  case (Inl e)
  with assms show ?thesis by (simp add: submit_def)
next
  case (Inr r)
  show ?thesis
  proof (cases r)
    case (Some rej)
    with Inr assms validate_rejection_400 [of body rej a] show ?thesis
      by (simp add: submit_def)
  next
    case None
    with Inr obtain d where d: "body = JObj d" using validate_None_body by blast
    from assms Inr None d show ?thesis
      by (auto simp: submit_def split: sum.splits prod.splits)
  qed
qed

lemma submit_accepts:
  assumes "validate (JObj d) = Inr None" and "filter_distances d = Inr ds"
    and "read_registrations fs = Inr prior" and "env_fault env = NoFault"
    and "make_entry env d ds = Inr entry" and "\<not> list_ex surrogates (prior @ [entry])"
  shows "submit env (JObj d) fs =
     (Inr (SendJson (JObj [(asc ''success'', JBool True), (asc ''id'', JStr (entry_id env))]) 200),
      fs(DATA_FILE \<mapsto> Document (JArr (prior @ [entry]))))"
  using assms by (simp add: submit_def)

lemma do_POST_success:
  "do_POST env req fs = (Inr (SendJson a 200), fs') \<Longrightarrow>
     req_path req = asc ''/api'' \<and>
     (\<exists>body. req_body req = Some body \<and> submit env body fs = (Inr (SendJson a 200), fs'))"
  by (auto simp: do_POST_def unauthorized_def split: if_splits sum.splits option.splits)

lemma read_after_write:
  "read_registrations (fs(DATA_FILE \<mapsto> Document (JArr xs))) = Inr xs"
  by (simp add: read_registrations_def)

lemma in_str_set_iff: "in_str_set v S = Inr b \<Longrightarrow> b = (v \<in> JStr ` S)"
  by (cases v) auto

lemma keep_valid_filter:
  "keep_valid acc cs = Inr ds \<Longrightarrow> ds = acc @ filter (\<lambda>v. v \<in> JStr ` VALID_DISTANCES) cs"
proof (induction cs arbitrary: acc)
  case Nil
  then show ?case by simp
next
  case (Cons c cs)
  from Cons.prems obtain b where
    b: "in_str_set c VALID_DISTANCES = Inr b"
    and k: "keep_valid (if b then acc @ [c] else acc) cs = Inr ds"
    by (auto split: sum.splits bool.splits)
  from Cons.IH [OF k] in_str_set_iff [OF b] show ?case by auto
qed

lemma filter_distances_filter:
  assumes "filter_distances d = Inr ds"
  shows "\<exists>candidates. iterate (dict_get d (asc ''distances'') (JArr [])) = Inr candidates \<and>
           ds = filter (\<lambda>v. v \<in> JStr ` VALID_DISTANCES) candidates"
  using assms keep_valid_filter [of "[]"]
  by (auto simp: filter_distances_def split: sum.splits)

lemma accepted_submission:
  assumes "do_POST env req fs = (Inr (SendJson a 200), fs')"
  shows "\<exists>d ds entry prior. req_body req = Some (JObj d) \<and> validate (JObj d) = Inr None \<and>
      filter_distances d = Inr ds \<and> make_entry env d ds = Inr entry \<and>
      read_registrations fs = Inr prior \<and> env_fault env = NoFault \<and>
      fs' = fs(DATA_FILE \<mapsto> Document (JArr (prior @ [entry])))"
proof -
  from do_POST_success [OF assms] obtain body where
    b: "req_body req = Some body" and s: "submit env body fs = (Inr (SendJson a 200), fs')"
    by blast
  from submit_success [OF s] b show ?thesis by blast
qed

text \<open>
  A submission run in full: a surname with markup and surrounding blanks, and a list of
  distances with an unknown value and a repeated one, appended to a store of one entry.
\<close>

lemma example_validate:
  "validate (JObj
         [(asc ''surname'', JStr ([32, 60, 98, 62, 1048, 1074, 1072, 1085, 1086, 1074, 60, 47, 98, 62, 32])),
          (asc ''firstname'', JStr (asc ''Ivan'')),
          (asc ''birthdate'', JStr (asc ''1980-02-03'')), (asc ''gender'', JStr [1052]),
          (asc ''country'', JStr (asc ''RU'')), (asc ''city'', JStr (asc ''Ryazan'')),
          (asc ''team'', JStr (asc ''Syntul'')), (asc ''boat_class'', JStr [1050, 45, 49]),
          (asc ''phone'', JStr (asc ''+7 900'')),
          (asc ''distances'', JArr [JStr [50, 48, 48, 32, 1084], JStr (asc ''bogus''),
                                    JStr [50, 48, 48, 32, 1084]])]) = Inr None"
  by (simp add: validate_def required_def dict_get_def subscript_def asc_def strip_def isspace_def
       VALID_GENDERS_def VALID_BOATS_def)

lemma example_distances:
  "filter_distances
         [(asc ''surname'', JStr ([32, 60, 98, 62, 1048, 1074, 1072, 1085, 1086, 1074, 60, 47, 98, 62, 32])),
          (asc ''firstname'', JStr (asc ''Ivan'')),
          (asc ''birthdate'', JStr (asc ''1980-02-03'')), (asc ''gender'', JStr [1052]),
          (asc ''country'', JStr (asc ''RU'')), (asc ''city'', JStr (asc ''Ryazan'')),
          (asc ''team'', JStr (asc ''Syntul'')), (asc ''boat_class'', JStr [1050, 45, 49]),
          (asc ''phone'', JStr (asc ''+7 900'')),
          (asc ''distances'', JArr [JStr [50, 48, 48, 32, 1084], JStr (asc ''bogus''),
                                    JStr [50, 48, 48, 32, 1084]])]
   = Inr [JStr [50, 48, 48, 32, 1084], JStr [50, 48, 48, 32, 1084]]"
  by (simp add: filter_distances_def iterate_def dict_get_def asc_def VALID_DISTANCES_def)

lemma example_run:
  "do_POST
      \<lparr>env_ADMIN_TOKEN = asc ''changeme'', env_uuid4_hex = asc ''0123456789abcdef0123456789abcdef'',
       env_now = asc ''2026-01-01 10:00:00'', env_repr = (\<lambda>v. []),
       env_wb_save = (\<lambda>ws. Inr []), env_fault = NoFault\<rparr>
      \<lparr>req_path = asc ''/api'', req_token = None,
       req_body = Some (JObj
         [(asc ''surname'', JStr ([32, 60, 98, 62, 1048, 1074, 1072, 1085, 1086, 1074, 60, 47, 98, 62, 32])),
          (asc ''firstname'', JStr (asc ''Ivan'')),
          (asc ''birthdate'', JStr (asc ''1980-02-03'')), (asc ''gender'', JStr [1052]),
          (asc ''country'', JStr (asc ''RU'')), (asc ''city'', JStr (asc ''Ryazan'')),
          (asc ''team'', JStr (asc ''Syntul'')), (asc ''boat_class'', JStr [1050, 45, 49]),
          (asc ''phone'', JStr (asc ''+7 900'')),
          (asc ''distances'', JArr [JStr [50, 48, 48, 32, 1084], JStr (asc ''bogus''),
                                    JStr [50, 48, 48, 32, 1084]])])\<rparr>
      (Map.empty(DATA_FILE \<mapsto> Document (JArr [JObj [(asc ''id'', JStr (asc ''reg_a''))]])))
   = (Inr (SendJson (JObj [(asc ''success'', JBool True), (asc ''id'', JStr (asc ''reg_0123456789ab''))]) 200),
      Map.empty(DATA_FILE \<mapsto> Document (JArr [JObj [(asc ''id'', JStr (asc ''reg_a''))], JObj
      [(asc ''id'', JStr (asc ''reg_0123456789ab'')),
       (asc ''timestamp'', JStr (asc ''2026-01-01 10:00:00'')),
       (asc ''surname'', JStr (asc ''&lt;b&gt;'' @ [1048, 1074, 1072, 1085, 1086, 1074] @ asc ''&lt;/b&gt;'')),
       (asc ''firstname'', JStr (asc ''Ivan'')),
       (asc ''patronymic'', JStr []),
       (asc ''birthdate'', JStr (asc ''1980-02-03'')),
       (asc ''gender'', JStr [1052]),
       (asc ''country'', JStr (asc ''RU'')),
       (asc ''city'', JStr (asc ''Ryazan'')),
       (asc ''rank'', JStr []),
       (asc ''team'', JStr (asc ''Syntul'')),
       (asc ''boat_class'', JStr [1050, 45, 49]),
       (asc ''phone'', JStr (asc ''+7 900'')),
       (asc ''distances'', JArr [JStr [50, 48, 48, 32, 1084], JStr [50, 48, 48, 32, 1084]])]])))"
  (is "do_POST ?E \<lparr>req_path = ?p, req_token = ?t, req_body = Some (JObj ?d)\<rparr> ?F =
        (Inr ?answer, Map.empty(DATA_FILE \<mapsto> Document (JArr [?old, ?new])))")
proof -
  note v = example_validate and f = example_distances
  have r: "read_registrations ?F = Inr [?old]"
    by (simp add: read_registrations_def)
  have e: "make_entry ?E ?d [JStr [50, 48, 48, 32, 1084], JStr [50, 48, 48, 32, 1084]] = Inr ?new"
    unfolding make_entry_explicit [OF v]
    by (simp add: sanitize_def str_def dict_get_def asc_def strip_def isspace_def escape_def
          replace_def entry_id_def)
  have i: "entry_id ?E = asc ''reg_0123456789ab''"
    by (simp add: entry_id_def asc_def)
  have s: "\<not> list_ex surrogates ([?old] @ [?new])"
    by (simp add: is_surrogate_def asc_def)
  show ?thesis
    unfolding do_POST_def
    by (simp add: submit_accepts [OF v f r _ e s] asc_eq_iff i)
qed

lemma check_required_find:
  assumes "\<forall>f \<in> set fs. \<exists>s. dict_get d f (JStr []) = JStr s"
  shows "check_required d fs =
     Inr (find (\<lambda>f. case dict_get d f (JStr []) of JStr s \<Rightarrow> strip s = [] | _ \<Rightarrow> False) fs)"
  using assms by (induction fs) auto

lemma find_None_present:
  assumes "find (\<lambda>f. case dict_get d f (JStr []) of JStr s \<Rightarrow> strip s = [] | _ \<Rightarrow> False) fs = None"
    and "f \<in> set fs" and "dict_get d f (JStr []) = JStr s"
  shows "map_of d f = Some (JStr s)"
proof -
  from assms have "strip s \<noteq> []" by (auto simp: find_None_iff)
  with assms(3) show ?thesis
    by (auto simp: dict_get_def strip_Nil split: option.splits)
qed

lemma in_image_JStr: "JStr s \<in> JStr ` S \<longleftrightarrow> s \<in> S"
  by auto

lemma field_required_inject: "field_required f = field_required g \<longleftrightarrow> f = g"
  by (simp add: field_required_def failure_def)

lemma check_required_raises:
  assumes "\<forall>f \<in> set fs. \<forall>s. dict_get d f (JStr []) = JStr s \<longrightarrow> strip s \<noteq> []"
    and "\<exists>f \<in> set fs. \<forall>s. dict_get d f (JStr []) \<noteq> JStr s"
  shows "check_required d fs = Inl AttributeError"
  using assms
proof (induction fs)
  case Nil
  then show ?case by simp
next
  case (Cons f fs)
  show ?case
  proof (cases "\<exists>s. dict_get d f (JStr []) = JStr s")
    case True
    then obtain s where s: "dict_get d f (JStr []) = JStr s" ..
    with Cons.prems have ns: "strip s \<noteq> []" by auto
    from Cons.prems s have "\<exists>f \<in> set fs. \<forall>s. dict_get d f (JStr []) \<noteq> JStr s" by auto
    moreover from Cons.prems
    have "\<forall>f \<in> set fs. \<forall>s. dict_get d f (JStr []) = JStr s \<longrightarrow> strip s \<noteq> []" by auto
    ultimately have "check_required d fs = Inl AttributeError"
      using Cons.IH by blast
    with s ns show ?thesis by simp
  next
    case False
    then show ?thesis by (cases "dict_get d f (JStr [])") auto
  qed
qed

section \<open>Properties of the report\<close>












section \<open>Further properties of a submission\<close>

text \<open>
  The escaped text holds none of the characters \<open><\<close>, \<open>>\<close>, \<open>"\<close> and \<open>'\<close>; a submission that
  is answered, but not with success, leaves the store as it was; and the
  entry of an accepted submission has non-empty required text fields, a gender and a boat
  class of the fixed sets, and distances of the catalogue only.
\<close>

lemma replace_Nil_iff: "r \<noteq> [] \<Longrightarrow> replace c r s = [] \<longleftrightarrow> s = []"
  by (cases s) (auto simp: replace_def)

lemma escape_Nil_iff: "escape s = [] \<longleftrightarrow> s = []"
  by (simp add: escape_def replace_Nil_iff asc_def)

lemma set_replace: "set (replace c r s) = (set s - {c}) \<union> (if c \<in> set s then set r else {})"
  by (induction s) (auto simp: replace_def)

lemma escape_leaves_no_markup:
  "60 \<notin> set (escape s) \<and> 62 \<notin> set (escape s) \<and> 34 \<notin> set (escape s) \<and> 39 \<notin> set (escape s)"
  by (simp add: escape_def set_replace asc_def)

lemma rejected_submission_keeps_store:
  assumes "do_POST env req fs = (Inr answer, fs')" and "\<forall>a. answer \<noteq> SendJson a 200"
  shows "fs' = fs"
  using assms
  by (auto simp: do_POST_def submit_def split: if_splits sum.splits option.splits json.splits prod.splits)

lemma validate_None_gender:
  "validate (JObj d) = Inr None \<Longrightarrow>
     \<exists>g. map_of d (asc ''gender'') = Some (JStr g) \<and> g \<in> VALID_GENDERS"
  apply (frule validate_None_required [where f = "asc ''gender''"])
   apply (simp add: required_def)
  apply (auto simp: validate_def subscript_def split: sum.splits option.splits bool.splits)
  done

lemma validate_None_boat:
  "validate (JObj d) = Inr None \<Longrightarrow>
     \<exists>b. map_of d (asc ''boat_class'') = Some (JStr b) \<and> b \<in> VALID_BOATS"
  apply (frule validate_None_required [where f = "asc ''boat_class''"])
   apply (simp add: required_def)
  apply (auto simp: validate_def subscript_def split: sum.splits option.splits bool.splits)
  done

lemma sanitize_required_nonempty:
  assumes "validate (JObj d) = Inr None" and "f \<in> set required"
  shows "sanitize repr (dict_get d f (JStr [])) \<noteq> []"
proof -
  from validate_None_required [OF assms] obtain s where
    "map_of d f = Some (JStr s)" "strip s \<noteq> []" by blast
  then show ?thesis
    by (simp add: sanitize_def str_def dict_get_def escape_Nil_iff)
qed

lemma all_in_image:
  "\<forall>x \<in> set xs. x \<in> f ` S \<Longrightarrow> \<exists>ys. xs = map f ys \<and> set ys \<subseteq> S"
proof (induction xs)
  case Nil
  then show ?case by simp
next
  case (Cons x xs)
  then obtain ys y where "xs = map f ys" "set ys \<subseteq> S" "x = f y" "y \<in> S" by auto
  then have "x # xs = map f (y # ys) \<and> set (y # ys) \<subseteq> S" by simp
  then show ?case by (rule exI)
qed

lemma persisted_entry_constraints:
  assumes "do_POST env req fs = (Inr (SendJson a 200), fs')"
  shows "\<exists>prior entry ds.
      fs' DATA_FILE = Some (Document (JArr (prior @ [JObj entry]))) \<and>
      list_all (\<lambda>key. \<exists>s. map_of entry key = Some (JStr s) \<and> s \<noteq> [])
        [asc ''surname'', asc ''firstname'', asc ''birthdate'', asc ''country'',
         asc ''city'', asc ''team'', asc ''phone''] \<and>
      (\<exists>g. map_of entry (asc ''gender'') = Some (JStr g) \<and> g \<in> VALID_GENDERS) \<and>
      (\<exists>b. map_of entry (asc ''boat_class'') = Some (JStr b) \<and> b \<in> VALID_BOATS) \<and>
      map_of entry (asc ''distances'') = Some (JArr (map JStr ds)) \<and>
      set ds \<subseteq> VALID_DISTANCES"
proof -
  from accepted_submission [OF assms] obtain d cs entry prior where
    v: "validate (JObj d) = Inr None"
    and f: "filter_distances d = Inr cs" and e: "make_entry env d cs = Inr entry"
    and fs': "fs' = fs(DATA_FILE \<mapsto> Document (JArr (prior @ [entry])))"
    by blast
  from filter_distances_filter [OF f] have "\<forall>c \<in> set cs. c \<in> JStr ` VALID_DISTANCES"
    by auto
  from all_in_image [OF this] obtain ds where
    ds: "cs = map JStr ds" "set ds \<subseteq> VALID_DISTANCES" by blast
  from validate_None_gender [OF v] obtain g where
    g: "map_of d (asc ''gender'') = Some (JStr g)" "g \<in> VALID_GENDERS" by blast
  from validate_None_boat [OF v] obtain b where
    b: "map_of d (asc ''boat_class'') = Some (JStr b)" "b \<in> VALID_BOATS" by blast
  have n: "\<And>f. f \<in> set required \<Longrightarrow> sanitize (env_repr env) (dict_get d f (JStr [])) \<noteq> []"
    by (rule sanitize_required_nonempty [OF v])
  from e [unfolded make_entry_explicit [OF v] sum.inject] obtain kvs where
    k: "entry = JObj kvs"
    and t: "list_all (\<lambda>key. \<exists>s. map_of kvs key = Some (JStr s) \<and> s \<noteq> [])
        [asc ''surname'', asc ''firstname'', asc ''birthdate'', asc ''country'',
         asc ''city'', asc ''team'', asc ''phone'']"
    and kg: "map_of kvs (asc ''gender'') = Some (JStr g)"
    and kb: "map_of kvs (asc ''boat_class'') = Some (JStr b)"
    and kd: "map_of kvs (asc ''distances'') = Some (JArr cs)"
    using g(1) b(1) n by (auto simp: asc_eq_iff dict_get_def required_def)
  from fs' k t kg kb kd g(2) b(2) ds show ?thesis by auto
qed

section \<open>The claims\<close>

text \<open>
  C1. Whenever a submission is answered with success, reading the store afterwards
  gives exactly what reading it before gave, in the same order, followed by one new
  entry. The entry holds the id \<open>reg_\<close> plus the first twelve characters of the fresh
  UUID, the timestamp of the commit, the sanitized text fields, the gender and boat
  class of the payload and its filtered distances.
\<close>

theorem append_round_trip:
  assumes "do_POST env req fs = (Inr (SendJson a 200), fs')"
  shows "\<exists>prior d ds.
      read_registrations fs = Inr prior \<and>
      req_body req = Some (JObj d) \<and>
      filter_distances d = Inr ds \<and>
      read_registrations fs' = Inr (prior @ [JObj
        [(asc ''id'', JStr (asc ''reg_'' @ take 12 (env_uuid4_hex env))),
         (asc ''timestamp'', JStr (env_now env)),
         (asc ''surname'', JStr (sanitize (env_repr env) (dict_get d (asc ''surname'') (JStr [])))),
         (asc ''firstname'', JStr (sanitize (env_repr env) (dict_get d (asc ''firstname'') (JStr [])))),
         (asc ''patronymic'', JStr (sanitize (env_repr env) (dict_get d (asc ''patronymic'') (JStr [])))),
         (asc ''birthdate'', JStr (sanitize (env_repr env) (dict_get d (asc ''birthdate'') (JStr [])))),
         (asc ''gender'', dict_get d (asc ''gender'') (JStr [])),
         (asc ''country'', JStr (sanitize (env_repr env) (dict_get d (asc ''country'') (JStr [])))),
         (asc ''city'', JStr (sanitize (env_repr env) (dict_get d (asc ''city'') (JStr [])))),
         (asc ''rank'', JStr (sanitize (env_repr env) (dict_get d (asc ''rank'') (JStr [])))),
         (asc ''team'', JStr (sanitize (env_repr env) (dict_get d (asc ''team'') (JStr [])))),
         (asc ''boat_class'', dict_get d (asc ''boat_class'') (JStr [])),
         (asc ''phone'', JStr (sanitize (env_repr env) (dict_get d (asc ''phone'') (JStr [])))),
         (asc ''distances'', JArr ds)]]) \<and>
      a = JObj [(asc ''success'', JBool True),
                (asc ''id'', JStr (asc ''reg_'' @ take 12 (env_uuid4_hex env)))]"
proof -
  from do_POST_success [OF assms] obtain body where
    b: "req_body req = Some body" and s: "submit env body fs = (Inr (SendJson a 200), fs')"
    by blast
  from submit_success [OF s] obtain d ds entry prior where
    d: "body = JObj d" and v: "validate (JObj d) = Inr None"
    and f: "filter_distances d = Inr ds" and e: "make_entry env d ds = Inr entry"
    and r: "read_registrations fs = Inr prior" and n: "env_fault env = NoFault"
    and fs': "fs' = fs(DATA_FILE \<mapsto> Document (JArr (prior @ [entry])))"
    by blast
  from submit_answer [OF s]
  have a: "a = JObj [(asc ''success'', JBool True), (asc ''id'', JStr (entry_id env))]" .
  note ent = e [unfolded make_entry_explicit [OF v] sum.inject entry_id_def, symmetric]
  have "read_registrations fs' = Inr (prior @ [entry])"
    by (simp only: fs' read_after_write)
  with r b d f a show ?thesis
    unfolding ent entry_id_def by blast
qed

theorem append_round_trip_witness:
  "read_registrations (snd (do_POST
      \<lparr>env_ADMIN_TOKEN = asc ''changeme'', env_uuid4_hex = asc ''0123456789abcdef0123456789abcdef'',
       env_now = asc ''2026-01-01 10:00:00'', env_repr = (\<lambda>v. []),
       env_wb_save = (\<lambda>ws. Inr []), env_fault = NoFault\<rparr>
      \<lparr>req_path = asc ''/api'', req_token = None,
       req_body = Some (JObj
         [(asc ''surname'', JStr ([32, 60, 98, 62, 1048, 1074, 1072, 1085, 1086, 1074, 60, 47, 98, 62, 32])),
          (asc ''firstname'', JStr (asc ''Ivan'')),
          (asc ''birthdate'', JStr (asc ''1980-02-03'')), (asc ''gender'', JStr [1052]),
          (asc ''country'', JStr (asc ''RU'')), (asc ''city'', JStr (asc ''Ryazan'')),
          (asc ''team'', JStr (asc ''Syntul'')), (asc ''boat_class'', JStr [1050, 45, 49]),
          (asc ''phone'', JStr (asc ''+7 900'')),
          (asc ''distances'', JArr [JStr [50, 48, 48, 32, 1084], JStr (asc ''bogus''),
                                    JStr [50, 48, 48, 32, 1084]])])\<rparr>
      (Map.empty(DATA_FILE \<mapsto> Document (JArr [JObj [(asc ''id'', JStr (asc ''reg_a''))]])))))
   = Inr [JObj [(asc ''id'', JStr (asc ''reg_a''))], JObj
      [(asc ''id'', JStr (asc ''reg_0123456789ab'')),
       (asc ''timestamp'', JStr (asc ''2026-01-01 10:00:00'')),
       (asc ''surname'', JStr (asc ''&lt;b&gt;'' @ [1048, 1074, 1072, 1085, 1086, 1074] @ asc ''&lt;/b&gt;'')),
       (asc ''firstname'', JStr (asc ''Ivan'')),
       (asc ''patronymic'', JStr []),
       (asc ''birthdate'', JStr (asc ''1980-02-03'')),
       (asc ''gender'', JStr [1052]),
       (asc ''country'', JStr (asc ''RU'')),
       (asc ''city'', JStr (asc ''Ryazan'')),
       (asc ''rank'', JStr []),
       (asc ''team'', JStr (asc ''Syntul'')),
       (asc ''boat_class'', JStr [1050, 45, 49]),
       (asc ''phone'', JStr (asc ''+7 900'')),
       (asc ''distances'', JArr [JStr [50, 48, 48, 32, 1084], JStr [50, 48, 48, 32, 1084]])]]"
proof -
  from append_round_trip [OF example_run] have
    "\<exists>prior. read_registrations (Map.empty(DATA_FILE \<mapsto> Document (JArr [JObj [(asc ''id'', JStr (asc ''reg_a''))]]))) = Inr prior"
    by blast
  then show ?thesis
    by (simp add: example_run read_after_write)
qed

text \<open>
  C2 (as amended). For a payload that is a JSON object in which every required field
  that is present holds a string, validation never raises and rejects exactly when a
  required field is missing or blank after trimming (the first such field, in the order
  of \<open>required\<close>, is the one named in the rejection, and different fields give different
  rejections), or else \<open>gender\<close> is outside \<open>VALID_GENDERS\<close>, or else \<open>boat_class\<close> is
  outside \<open>VALID_BOATS\<close>; every other such payload passes.
\<close>

theorem validate_typed_payload:
  assumes "\<forall>f \<in> set required. \<exists>s. dict_get d f (JStr []) = JStr s"
  shows "validate (JObj d) =
     (case find (\<lambda>f. case dict_get d f (JStr []) of JStr s \<Rightarrow> strip s = [] | _ \<Rightarrow> False)
             required of
        Some f \<Rightarrow> Inr (Some (field_required f))
      | None \<Rightarrow>
          if dict_get d (asc ''gender'') (JStr []) \<notin> JStr ` VALID_GENDERS
          then Inr (Some bad_gender)
          else if dict_get d (asc ''boat_class'') (JStr []) \<notin> JStr ` VALID_BOATS
          then Inr (Some bad_boat)
          else Inr None) \<and>
     (field_required f = field_required g \<longleftrightarrow> f = g)"
proof (cases "find (\<lambda>f. case dict_get d f (JStr []) of JStr s \<Rightarrow> strip s = [] | _ \<Rightarrow> False) required")
  case (Some f)
  then show ?thesis
    by (simp add: validate_def check_required_find [OF assms] field_required_inject)
next
  case None
  from assms obtain g where g: "dict_get d (asc ''gender'') (JStr []) = JStr g"
    by (auto simp: required_def)
  from assms obtain b where b: "dict_get d (asc ''boat_class'') (JStr []) = JStr b"
    by (auto simp: required_def)
  have mg: "map_of d (asc ''gender'') = Some (JStr g)"
    by (rule find_None_present [OF None _ g]) (simp add: required_def)
  have mb: "map_of d (asc ''boat_class'') = Some (JStr b)"
    by (rule find_None_present [OF None _ b]) (simp add: required_def)
  show ?thesis
    by (simp add: validate_def check_required_find [OF assms] None subscript_def mg mb g b
          in_image_JStr field_required_inject)
qed

theorem validate_typed_payload_witness:
  "validate (JObj
       [(asc ''surname'', JStr (asc ''Ivanov'')), (asc ''firstname'', JStr (asc ''Ivan'')),
        (asc ''birthdate'', JStr (asc ''1980-02-03'')), (asc ''gender'', JStr [1052]),
        (asc ''country'', JStr (asc ''RU'')), (asc ''city'', JStr (asc ''Ryazan'')),
        (asc ''boat_class'', JStr [1050, 45, 49]), (asc ''phone'', JStr (asc ''+7 900''))])
   = Inr (Some (field_required (asc ''team'')))"
  (is "validate (JObj ?d) = _")
proof -
  have h: "\<forall>f \<in> set required. \<exists>s. dict_get ?d f (JStr []) = JStr s"
    by (simp add: required_def dict_get_def asc_eq_iff)
  from validate_typed_payload [OF h, THEN conjunct1] show ?thesis
    by (simp add: required_def dict_get_def asc_def strip_def isspace_def)
qed

text \<open>
  Against C2 as stated: it fails on other parsed payloads: a number in a required field, or a
  payload that is not an object, is neither rejected nor accepted; \<open>body.get\<close> or
  \<open>.strip()\<close> raises \<open>AttributeError\<close>.
\<close>

theorem validate_untyped_raises:
  "validate (JObj
       [(asc ''surname'', JInt 5), (asc ''firstname'', JStr (asc ''Ivan'')),
        (asc ''birthdate'', JStr (asc ''1980-02-03'')), (asc ''gender'', JStr [1052]),
        (asc ''country'', JStr (asc ''RU'')), (asc ''city'', JStr (asc ''Ryazan'')),
        (asc ''team'', JStr (asc ''Syntul'')), (asc ''boat_class'', JStr [1050, 45, 49]),
        (asc ''phone'', JStr (asc ''+7 900''))])
   = Inl AttributeError \<and> validate (JArr []) = Inl AttributeError"
  by (simp add: validate_def required_def dict_get_def asc_eq_iff)




text \<open>
  C4 is about calls that run at the same time. The handler takes no lock of its own;
  whether two appends can overlap is decided by the server that calls it
  (\<open>http.server.HTTPServer\<close> in \<open>main\<close>), and whether two ids differ by the random
  \<open>uuid4\<close>. Neither is a function of the handler, so the claim is not stated here.
\<close>

text \<open>
  C5 (as amended). For every accepted payload the persisted \<open>distances\<close> field is the
  list of the candidate values that belong to \<open>VALID_DISTANCES\<close>, in the order of the
  payload and with repetitions kept: unknown values are dropped, nothing is deduplicated.
  The candidates are what iterating the payload's \<open>distances\<close> yields.
\<close>

theorem persisted_distances:
  assumes "do_POST env req fs = (Inr (SendJson a 200), fs')"
  shows "\<exists>d candidates prior entry.
      req_body req = Some (JObj d) \<and>
      iterate (dict_get d (asc ''distances'') (JArr [])) = Inr candidates \<and>
      fs' DATA_FILE = Some (Document (JArr (prior @ [JObj entry]))) \<and>
      map_of entry (asc ''distances'') =
        Some (JArr (filter (\<lambda>v. v \<in> JStr ` VALID_DISTANCES) candidates))"
proof -
  from accepted_submission [OF assms] obtain d ds entry prior where
    b: "req_body req = Some (JObj d)" and v: "validate (JObj d) = Inr None"
    and f: "filter_distances d = Inr ds" and e: "make_entry env d ds = Inr entry"
    and fs': "fs' = fs(DATA_FILE \<mapsto> Document (JArr (prior @ [entry])))"
    by blast
  from filter_distances_filter [OF f] obtain candidates where
    c: "iterate (dict_get d (asc ''distances'') (JArr [])) = Inr candidates"
    and ds: "ds = filter (\<lambda>v. v \<in> JStr ` VALID_DISTANCES) candidates"
    by blast
  from e [unfolded make_entry_explicit [OF v] sum.inject] obtain kvs where
    k: "entry = JObj kvs" and m: "map_of kvs (asc ''distances'') = Some (JArr ds)"
    by (auto simp: asc_eq_iff)
  from b c fs' k m ds show ?thesis by auto
qed

theorem persisted_distances_witness:
  "snd (do_POST
      \<lparr>env_ADMIN_TOKEN = asc ''changeme'', env_uuid4_hex = asc ''0123456789abcdef0123456789abcdef'',
       env_now = asc ''2026-01-01 10:00:00'', env_repr = (\<lambda>v. []),
       env_wb_save = (\<lambda>ws. Inr []), env_fault = NoFault\<rparr>
      \<lparr>req_path = asc ''/api'', req_token = None,
       req_body = Some (JObj
         [(asc ''surname'', JStr ([32, 60, 98, 62, 1048, 1074, 1072, 1085, 1086, 1074, 60, 47, 98, 62, 32])),
          (asc ''firstname'', JStr (asc ''Ivan'')),
          (asc ''birthdate'', JStr (asc ''1980-02-03'')), (asc ''gender'', JStr [1052]),
          (asc ''country'', JStr (asc ''RU'')), (asc ''city'', JStr (asc ''Ryazan'')),
          (asc ''team'', JStr (asc ''Syntul'')), (asc ''boat_class'', JStr [1050, 45, 49]),
          (asc ''phone'', JStr (asc ''+7 900'')),
          (asc ''distances'', JArr [JStr [50, 48, 48, 32, 1084], JStr (asc ''bogus''),
                                    JStr [50, 48, 48, 32, 1084]])])\<rparr>
      (Map.empty(DATA_FILE \<mapsto> Document (JArr [JObj [(asc ''id'', JStr (asc ''reg_a''))]])))) DATA_FILE
   = Some (Document (JArr [JObj [(asc ''id'', JStr (asc ''reg_a''))], JObj
      [(asc ''id'', JStr (asc ''reg_0123456789ab'')),
       (asc ''timestamp'', JStr (asc ''2026-01-01 10:00:00'')),
       (asc ''surname'', JStr (asc ''&lt;b&gt;'' @ [1048, 1074, 1072, 1085, 1086, 1074] @ asc ''&lt;/b&gt;'')),
       (asc ''firstname'', JStr (asc ''Ivan'')),
       (asc ''patronymic'', JStr []),
       (asc ''birthdate'', JStr (asc ''1980-02-03'')),
       (asc ''gender'', JStr [1052]),
       (asc ''country'', JStr (asc ''RU'')),
       (asc ''city'', JStr (asc ''Ryazan'')),
       (asc ''rank'', JStr []),
       (asc ''team'', JStr (asc ''Syntul'')),
       (asc ''boat_class'', JStr [1050, 45, 49]),
       (asc ''phone'', JStr (asc ''+7 900'')),
       (asc ''distances'', JArr [JStr [50, 48, 48, 32, 1084], JStr [50, 48, 48, 32, 1084]])]]))"
proof -
  from persisted_distances [OF example_run] have
    "\<exists>d. req_body \<lparr>req_path = asc ''/api'', req_token = None,
       req_body = Some (JObj
         [(asc ''surname'', JStr ([32, 60, 98, 62, 1048, 1074, 1072, 1085, 1086, 1074, 60, 47, 98, 62, 32])),
          (asc ''firstname'', JStr (asc ''Ivan'')),
          (asc ''birthdate'', JStr (asc ''1980-02-03'')), (asc ''gender'', JStr [1052]),
          (asc ''country'', JStr (asc ''RU'')), (asc ''city'', JStr (asc ''Ryazan'')),
          (asc ''team'', JStr (asc ''Syntul'')), (asc ''boat_class'', JStr [1050, 45, 49]),
          (asc ''phone'', JStr (asc ''+7 900'')),
          (asc ''distances'', JArr [JStr [50, 48, 48, 32, 1084], JStr (asc ''bogus''),
                                    JStr [50, 48, 48, 32, 1084]])])\<rparr> = Some (JObj d)"
    by blast
  then show ?thesis
    by (simp add: example_run)
qed

text \<open>
  Against C5 as stated: the field is a list, and a value given twice is stored twice.
\<close>

theorem distances_duplicates_kept:
  "filter_distances
     [(asc ''distances'', JArr [JStr [50, 48, 48, 32, 1084], JStr [50, 48, 48, 32, 1084]])]
   = Inr [JStr [50, 48, 48, 32, 1084], JStr [50, 48, 48, 32, 1084]]
   \<and> \<not> distinct [JStr [50, 48, 48, 32, 1084], JStr [50, 48, 48, 32, 1084]]"
  by (simp add: filter_distances_def iterate_def dict_get_def VALID_DISTANCES_def)

text \<open>
  C6. For every accepted payload and every free-text field, the persisted value is the
  raw value of the payload (the empty string when \<open>patronymic\<close> or \<open>rank\<close> is absent; the
  text of \<open>str\<close> for a value that is not a string), stripped of surrounding whitespace
  and then escaped.
\<close>

theorem persisted_text_fields:
  assumes "do_POST env req fs = (Inr (SendJson a 200), fs')"
    and "key \<in> {asc ''surname'', asc ''firstname'', asc ''patronymic'', asc ''birthdate'',
                 asc ''country'', asc ''city'', asc ''rank'', asc ''team'', asc ''phone''}"
  shows "\<exists>d prior entry.
      req_body req = Some (JObj d) \<and>
      fs' DATA_FILE = Some (Document (JArr (prior @ [JObj entry]))) \<and>
      map_of entry key =
        Some (JStr (escape (strip (str (env_repr env) (dict_get d key (JStr []))))))"
proof -
  from accepted_submission [OF assms(1)] obtain d ds entry prior where
    b: "req_body req = Some (JObj d)" and v: "validate (JObj d) = Inr None"
    and e: "make_entry env d ds = Inr entry"
    and fs': "fs' = fs(DATA_FILE \<mapsto> Document (JArr (prior @ [entry])))"
    by blast
  from e [unfolded make_entry_explicit [OF v] sum.inject] assms(2) obtain kvs where
    k: "entry = JObj kvs"
    and m: "map_of kvs key = Some (JStr (sanitize (env_repr env) (dict_get d key (JStr []))))"
    by (auto simp: asc_eq_iff)
  from b fs' k m show ?thesis by (auto simp: sanitize_def)
qed

theorem persisted_text_fields_witness:
  "(case snd (do_POST
      \<lparr>env_ADMIN_TOKEN = asc ''changeme'', env_uuid4_hex = asc ''0123456789abcdef0123456789abcdef'',
       env_now = asc ''2026-01-01 10:00:00'', env_repr = (\<lambda>v. []),
       env_wb_save = (\<lambda>ws. Inr []), env_fault = NoFault\<rparr>
      \<lparr>req_path = asc ''/api'', req_token = None,
       req_body = Some (JObj
         [(asc ''surname'', JStr ([32, 60, 98, 62, 1048, 1074, 1072, 1085, 1086, 1074, 60, 47, 98, 62, 32])),
          (asc ''firstname'', JStr (asc ''Ivan'')),
          (asc ''birthdate'', JStr (asc ''1980-02-03'')), (asc ''gender'', JStr [1052]),
          (asc ''country'', JStr (asc ''RU'')), (asc ''city'', JStr (asc ''Ryazan'')),
          (asc ''team'', JStr (asc ''Syntul'')), (asc ''boat_class'', JStr [1050, 45, 49]),
          (asc ''phone'', JStr (asc ''+7 900'')),
          (asc ''distances'', JArr [JStr [50, 48, 48, 32, 1084], JStr (asc ''bogus''),
                                    JStr [50, 48, 48, 32, 1084]])])\<rparr>
      (Map.empty(DATA_FILE \<mapsto> Document (JArr [JObj [(asc ''id'', JStr (asc ''reg_a''))]])))) DATA_FILE of
      Some (Document (JArr registrations)) \<Rightarrow>
        (case last registrations of JObj entry \<Rightarrow> map_of entry (asc ''surname'') | _ \<Rightarrow> None)
    | _ \<Rightarrow> None)
   = Some (JStr (asc ''&lt;b&gt;'' @ [1048, 1074, 1072, 1085, 1086, 1074] @ asc ''&lt;/b&gt;''))"
proof -
  have k: "asc ''surname'' \<in> {asc ''surname'', asc ''firstname'', asc ''patronymic'', asc ''birthdate'',
                 asc ''country'', asc ''city'', asc ''rank'', asc ''team'', asc ''phone''}"
    by simp
  from persisted_text_fields [OF example_run k] have
    "\<exists>d. req_body \<lparr>req_path = asc ''/api'', req_token = None,
       req_body = Some (JObj
         [(asc ''surname'', JStr ([32, 60, 98, 62, 1048, 1074, 1072, 1085, 1086, 1074, 60, 47, 98, 62, 32])),
          (asc ''firstname'', JStr (asc ''Ivan'')),
          (asc ''birthdate'', JStr (asc ''1980-02-03'')), (asc ''gender'', JStr [1052]),
          (asc ''country'', JStr (asc ''RU'')), (asc ''city'', JStr (asc ''Ryazan'')),
          (asc ''team'', JStr (asc ''Syntul'')), (asc ''boat_class'', JStr [1050, 45, 49]),
          (asc ''phone'', JStr (asc ''+7 900'')),
          (asc ''distances'', JArr [JStr [50, 48, 48, 32, 1084], JStr (asc ''bogus''),
                                    JStr [50, 48, 48, 32, 1084]])])\<rparr> = Some (JObj d)"
    by blast
  then show ?thesis
    by (simp add: example_run asc_eq_iff)
qed






text \<open>
  C9 (as amended). When the backing file is absent, \<open>read_registrations\<close> returns the
  empty list, and so it does when the file is blank or holds a JSON value that is not an
  array; a JSON array is returned as it is. When opening, decoding or parsing the file
  raises an exception (\<open>UnicodeDecodeError\<close> for bytes that are not UTF-8,
  \<open>JSONDecodeError\<close> for text that is not JSON, \<open>RecursionError\<close> for text nested too
  deeply), \<open>read_registrations\<close> raises that same exception, and listing and export with
  the right credential raise it too instead of answering with data.
\<close>

theorem load_empty_or_raises:
  "(fs DATA_FILE = None \<or> fs DATA_FILE = Some Blank \<longrightarrow> read_registrations fs = Inr []) \<and>
   (fs DATA_FILE = Some (Document v) \<and> (\<forall>xs. v \<noteq> JArr xs) \<longrightarrow> read_registrations fs = Inr []) \<and>
   (fs DATA_FILE = Some (Document (JArr xs)) \<longrightarrow> read_registrations fs = Inr xs) \<and>
   (fs DATA_FILE = Some (Unreadable e) \<longrightarrow>
      read_registrations fs = Inl e \<and>
      (check_admin_token env req \<longrightarrow>
         do_GET env (req\<lparr>req_path := asc ''/api''\<rparr>) fs = Inl e \<and>
         do_POST env (req\<lparr>req_path := asc ''/api/export''\<rparr>) fs = (Inl e, fs)))"
proof (intro conjI impI)
  assume "fs DATA_FILE = None \<or> fs DATA_FILE = Some Blank"
  then show "read_registrations fs = Inr []"
    by (auto simp: read_registrations_def)
next
  assume "fs DATA_FILE = Some (Document v) \<and> (\<forall>xs. v \<noteq> JArr xs)"
  then show "read_registrations fs = Inr []"
    by (cases v) (simp_all add: read_registrations_def)
next
  assume "fs DATA_FILE = Some (Document (JArr xs))"
  then show "read_registrations fs = Inr xs"
    by (simp add: read_registrations_def)
next
  assume g: "fs DATA_FILE = Some (Unreadable e)"
  then show r: "read_registrations fs = Inl e"
    by (simp add: read_registrations_def)
  assume "check_admin_token env req"
  with r show "do_GET env (req\<lparr>req_path := asc ''/api''\<rparr>) fs = Inl e"
    and "do_POST env (req\<lparr>req_path := asc ''/api/export''\<rparr>) fs = (Inl e, fs)"
    by (simp_all add: do_GET_def do_POST_def check_admin_token_def)
qed

theorem load_empty_or_raises_witness:
  "read_registrations Map.empty = Inr [] \<and>
   read_registrations (Map.empty(DATA_FILE \<mapsto> Document JNull)) = Inr [] \<and>
   read_registrations (Map.empty(DATA_FILE \<mapsto> Document (JArr [JInt 1]))) = Inr [JInt 1] \<and>
   read_registrations (Map.empty(DATA_FILE \<mapsto> Unreadable UnicodeDecodeError))
     = Inl UnicodeDecodeError \<and>
   do_GET
      \<lparr>env_ADMIN_TOKEN = asc ''changeme'', env_uuid4_hex = asc ''0123456789abcdef0123456789abcdef'',
       env_now = asc ''2026-01-01 10:00:00'', env_repr = (\<lambda>v. []),
       env_wb_save = (\<lambda>ws. Inr []), env_fault = NoFault\<rparr>
      \<lparr>req_path = asc ''/api'', req_token = Some (asc ''changeme''), req_body = None\<rparr>
      (Map.empty(DATA_FILE \<mapsto> Unreadable RecursionError)) = Inl RecursionError"
  (is "_ \<and> _ \<and> _ \<and> _ \<and> do_GET ?E ?R _ = _")
proof -
  have 1: "Map.empty DATA_FILE = (None :: content option) \<or>
      Map.empty DATA_FILE = Some Blank" by simp
  have 2: "(Map.empty(DATA_FILE \<mapsto> Document JNull)) DATA_FILE = Some (Document JNull) \<and>
      (\<forall>xs. JNull \<noteq> JArr xs)" by simp
  have 3: "(Map.empty(DATA_FILE \<mapsto> Document (JArr [JInt 1]))) DATA_FILE
      = Some (Document (JArr [JInt 1]))" by simp
  have 4: "(Map.empty(DATA_FILE \<mapsto> Unreadable UnicodeDecodeError)) DATA_FILE
      = Some (Unreadable UnicodeDecodeError)" by simp
  have 5: "(Map.empty(DATA_FILE \<mapsto> Unreadable RecursionError)) DATA_FILE
      = Some (Unreadable RecursionError)" by simp
  have 6: "check_admin_token ?E ?R" by (simp add: check_admin_token_def)
  from load_empty_or_raises [where fs = "Map.empty", THEN conjunct1, THEN mp, OF 1]
    load_empty_or_raises [where fs = "Map.empty(DATA_FILE \<mapsto> Document JNull)",
      THEN conjunct2, THEN conjunct1, THEN mp, OF 2]
    load_empty_or_raises [where fs = "Map.empty(DATA_FILE \<mapsto> Document (JArr [JInt 1]))",
      THEN conjunct2, THEN conjunct2, THEN conjunct1, THEN mp, OF 3]
    load_empty_or_raises [where fs = "Map.empty(DATA_FILE \<mapsto> Unreadable UnicodeDecodeError)",
      THEN conjunct2, THEN conjunct2, THEN conjunct2, THEN mp, OF 4, THEN conjunct1]
    load_empty_or_raises [where fs = "Map.empty(DATA_FILE \<mapsto> Unreadable RecursionError)",
      THEN conjunct2, THEN conjunct2, THEN conjunct2, THEN mp, OF 5, THEN conjunct2, THEN mp,
      OF 6, THEN conjunct1]
  show ?thesis by simp
qed

text \<open>
  Against C9 as stated: a file that was truncated to nothing, and a file that holds one
  registration object where the array should be, are documents gone wrong, and both are
  read as the empty list without any error.
\<close>

theorem load_hides_damage:
  "read_registrations (Map.empty(DATA_FILE \<mapsto> Blank)) = Inr [] \<and>
   read_registrations
     (Map.empty(DATA_FILE \<mapsto> Document (JObj [(asc ''surname'', JStr (asc ''Ivanov''))])))
     = Inr []"
  by (simp add: read_registrations_def)

text \<open>
  C10. A parsed payload that is not an object makes the submit handler raise
  \<open>AttributeError\<close>, and so does an object in which a required field holds a value that
  is not a string while no required field is missing or blank; nothing is sent and the
  store is untouched. When every required field that is present holds a string,
  validation does not raise.
\<close>

theorem untyped_payload_raises:
  "((\<forall>d. body \<noteq> JObj d) \<longrightarrow>
      do_POST env \<lparr>req_path = asc ''/api'', req_token = token, req_body = Some body\<rparr> fs
        = (Inl AttributeError, fs)) \<and>
   ((\<forall>f \<in> set required. \<forall>s. dict_get d f (JStr []) = JStr s \<longrightarrow> strip s \<noteq> []) \<and>
    (\<exists>f \<in> set required. \<forall>s. dict_get d f (JStr []) \<noteq> JStr s) \<longrightarrow>
      do_POST env \<lparr>req_path = asc ''/api'', req_token = token, req_body = Some (JObj d)\<rparr> fs
        = (Inl AttributeError, fs)) \<and>
   ((\<forall>f \<in> set required. \<exists>s. dict_get d f (JStr []) = JStr s) \<longrightarrow>
      (\<exists>r. validate (JObj d) = Inr r))"
proof (intro conjI impI)
  assume "\<forall>d. body \<noteq> JObj d"
  then have "validate body = Inl AttributeError"
    by (cases body) (simp_all add: validate_def)
  then show "do_POST env \<lparr>req_path = asc ''/api'', req_token = token, req_body = Some body\<rparr> fs
        = (Inl AttributeError, fs)"
    by (simp add: do_POST_def submit_def asc_eq_iff)
next
  assume "(\<forall>f \<in> set required. \<forall>s. dict_get d f (JStr []) = JStr s \<longrightarrow> strip s \<noteq> []) \<and>
    (\<exists>f \<in> set required. \<forall>s. dict_get d f (JStr []) \<noteq> JStr s)"
  then have "check_required d required = Inl AttributeError"
    by (intro check_required_raises) blast+
  then have "validate (JObj d) = Inl AttributeError"
    by (simp add: validate_def)
  then show "do_POST env \<lparr>req_path = asc ''/api'', req_token = token, req_body = Some (JObj d)\<rparr> fs
        = (Inl AttributeError, fs)"
    by (simp add: do_POST_def submit_def asc_eq_iff)
next
  assume "\<forall>f \<in> set required. \<exists>s. dict_get d f (JStr []) = JStr s"
  then have "\<exists>r. check_required d required = Inr r"
    by (simp add: check_required_find)
  then obtain r where r: "check_required d required = Inr r" ..
  show "\<exists>r. validate (JObj d) = Inr r"
  proof (cases r)
    case (Some f)
    with r show ?thesis by (simp add: validate_def)
  next
    case None
    from check_required_None [OF r [unfolded None], of "asc ''gender''"]
    obtain g where g: "map_of d (asc ''gender'') = Some (JStr g)"
      by (auto simp: required_def)
    from check_required_None [OF r [unfolded None], of "asc ''boat_class''"]
    obtain b where b: "map_of d (asc ''boat_class'') = Some (JStr b)"
      by (auto simp: required_def)
    from r None g b show ?thesis
      by (auto simp: validate_def subscript_def split: bool.splits)
  qed
qed

theorem untyped_payload_raises_witness:
  "fst (do_POST
      \<lparr>env_ADMIN_TOKEN = asc ''changeme'', env_uuid4_hex = asc ''0123456789abcdef0123456789abcdef'',
       env_now = asc ''2026-01-01 10:00:00'', env_repr = (\<lambda>v. []),
       env_wb_save = (\<lambda>ws. Inr []), env_fault = NoFault\<rparr>
      \<lparr>req_path = asc ''/api'', req_token = None, req_body = Some (JArr [JStr (asc ''Ivanov'')])\<rparr>
      Map.empty) = Inl AttributeError
   \<and> fst (do_POST
      \<lparr>env_ADMIN_TOKEN = asc ''changeme'', env_uuid4_hex = asc ''0123456789abcdef0123456789abcdef'',
       env_now = asc ''2026-01-01 10:00:00'', env_repr = (\<lambda>v. []),
       env_wb_save = (\<lambda>ws. Inr []), env_fault = NoFault\<rparr>
      \<lparr>req_path = asc ''/api'', req_token = None,
       req_body = Some (JObj
         [(asc ''surname'', JInt 5), (asc ''firstname'', JStr (asc ''Ivan'')),
          (asc ''birthdate'', JStr (asc ''1980-02-03'')), (asc ''gender'', JStr [1052]),
          (asc ''country'', JStr (asc ''RU'')), (asc ''city'', JStr (asc ''Ryazan'')),
          (asc ''team'', JStr (asc ''Syntul'')), (asc ''boat_class'', JStr [1050, 45, 49]),
          (asc ''phone'', JStr (asc ''+7 900''))])\<rparr>
      Map.empty) = Inl AttributeError
   \<and> (\<exists>r. validate (JObj [(asc ''surname'', JStr (asc ''Ivanov''))]) = Inr r)"
  (is "fst (do_POST ?E \<lparr>req_path = _, req_token = _, req_body = Some ?b\<rparr> _) = _ \<and>
       fst (do_POST _ \<lparr>req_path = _, req_token = _, req_body = Some (JObj ?d)\<rparr> _) = _ \<and>
       (\<exists>r. validate (JObj ?t) = Inr r)")
proof -
  have 1: "\<forall>d. ?b \<noteq> JObj d" by simp
  have 2: "(\<forall>f \<in> set required. \<forall>s. dict_get ?d f (JStr []) = JStr s \<longrightarrow> strip s \<noteq> []) \<and>
    (\<exists>f \<in> set required. \<forall>s. dict_get ?d f (JStr []) \<noteq> JStr s)"
    by (simp add: required_def dict_get_def asc_def strip_def isspace_def)
  have 3: "\<forall>f \<in> set required. \<exists>s. dict_get ?t f (JStr []) = JStr s"
    by (simp add: required_def dict_get_def asc_eq_iff)
  from untyped_payload_raises [where env = ?E and fs = Map.empty and token = None,
      THEN conjunct1, THEN mp, OF 1]
    untyped_payload_raises [where env = ?E and fs = Map.empty and token = None,
      THEN conjunct2, THEN conjunct1, THEN mp, OF 2]
    untyped_payload_raises [THEN conjunct2, THEN conjunct2, THEN mp, OF 3]
  show ?thesis by simp
qed

end
